theory Spec2Isabelle
  imports Complex_Main "HOL-Library.AList"
begin

section \<open>The LAN network health API (\<^verbatim>\<open>src/main.py\<close>)\<close>

text \<open>
  The program is a FastAPI application with four routes over one module-level dictionary
  \<^verbatim>\<open>LATEST\<close>. The endpoint functions of \<^verbatim>\<open>main.py\<close> are translated one by one; what
  FastAPI and pydantic do around them (resolving the \<^verbatim>\<open>Depends(require_key)\<close>
  dependency, validating the body against \<^verbatim>\<open>HealthPayload\<close>) is written out as the
  functions that call them.

  Conventions of the embedding:
  \<^item> Python floats (\<^verbatim>\<open>time.time()\<close>, the \<^verbatim>\<open>float\<close> fields) are exact reals: rounding,
    infinities and NaN are outside the model. A JSON number is one constructor \<open>JNum\<close>,
    whether Python reads it as \<^verbatim>\<open>int\<close> or \<^verbatim>\<open>float\<close>; \<^verbatim>\<open>60\<close> and \<^verbatim>\<open>60.0\<close> are equal in
    Python and equal here.
  \<^item> A Python \<^verbatim>\<open>dict\<close> is an association list in insertion order with distinct keys;
    \<^verbatim>\<open>d[k] = v\<close> is \<^const>\<open>AList.update\<close> (replace in place, else append), \<^verbatim>\<open>d.get(k)\<close> is
    \<^const>\<open>map_of\<close>.
  \<^item> A \<^verbatim>\<open>raise\<close> is the \<open>Inl\<close> of a sum; every endpoint takes the store and returns it.
  \<^item> The clock is a parameter \<open>now\<close>: the value \<^verbatim>\<open>time.time()\<close> returns in that call.
\<close>

subsection \<open>JSON values and the configuration\<close>

datatype json =
    JNull
  | JBool bool
  | JNum real
  | JStr string
  | JArr "json list"
  | JObj "(string \<times> json) list"

text \<open>
  \<^verbatim>\<open>MAKE_API_KEY = os.getenv("MAKE_API_KEY", "make_network_health")\<close> and
  \<^verbatim>\<open>STALE_SECONDS = int(os.getenv("STALE_SECONDS", "300"))\<close> are fixed at process start.
\<close>

record config =
  MAKE_API_KEY :: string
  STALE_SECONDS :: int

definition default_config :: config where
  "default_config = \<lparr>MAKE_API_KEY = ''make_network_health'', STALE_SECONDS = 300\<rparr>"

text \<open>
  A failed request: an \<^verbatim>\<open>HTTPException(status_code, detail)\<close> raised by the code of
  \<^verbatim>\<open>main.py\<close>, or FastAPI's \<^verbatim>\<open>RequestValidationError\<close>, which it answers with
  status 422 (the list of error descriptions in its body is not modelled).
\<close>

datatype failure =
    HTTPException nat string
  | RequestValidationError


type_synonym response = "failure + json"

subsection \<open>The store\<close>

text \<open>\<^verbatim>\<open>LATEST: Dict[str, Dict[str, Any]]\<close>; each value is \<^verbatim>\<open>{"data": data, "ts": time.time()}\<close>.\<close>

record entry =
  data :: "(string \<times> json) list"
  ts :: real

type_synonym store = "(string \<times> entry) list"

subsection \<open>Authentication\<close>

text \<open>
  \<^verbatim>\<open>
  def require_key(x_api_key: str = Header(...)):
      if x_api_key != MAKE_API_KEY:
          raise HTTPException(status_code=401, detail="Invalid API key")
  \<close>
\<close>

definition require_key :: "config \<Rightarrow> string \<Rightarrow> failure + unit" where
  "require_key cfg x_api_key =
     (if x_api_key \<noteq> MAKE_API_KEY cfg then Inl (HTTPException 401 ''Invalid API key'')
      else Inr ())"

text \<open>
  How FastAPI resolves \<^verbatim>\<open>Depends(require_key)\<close>. The parameter is declared \<^verbatim>\<open>Header(...)\<close>,
  a required header: when the request has no \<^verbatim>\<open>x-api-key\<close> header FastAPI records a
  validation error and does not call \<^verbatim>\<open>require_key\<close> at all; otherwise it calls it
  with the header's value, and an exception it raises ends the request at once.
\<close>

datatype 'a solved =
    Raised failure
  | ParamErrors
  | Solved 'a

definition depends_require_key :: "config \<Rightarrow> string option \<Rightarrow> unit solved" where
  "depends_require_key cfg header =
     (case header of
        None \<Rightarrow> ParamErrors
      | Some x_api_key \<Rightarrow>
          (case require_key cfg x_api_key of Inl e \<Rightarrow> Raised e | Inr u \<Rightarrow> Solved u))"

subsection \<open>The request body: \<^verbatim>\<open>HealthPayload\<close>\<close>

text \<open>
  \<^verbatim>\<open>
  class HealthPayload(BaseModel):
      device_id: str = Field(..., min_length=1)
      cpu: Optional[float] = Field(default=None, ge=0, le=100)
      ram: Optional[float] = Field(default=None, ge=0, le=100)
      temperature: Optional[float] = None
      status: Optional[str] = "OK"
      health_score: Optional[int] = Field(default=None, ge=0, le=100)
      extra: Optional[Dict[str, Any]] = None
  \<close>
\<close>

record HealthPayload =
  device_id :: string
  cpu :: "real option"
  ram :: "real option"
  temperature :: "real option"
  status :: "string option"
  health_score :: "int option"
  extra :: "(string \<times> json) list option"

text \<open>
  FastAPI validates the decoded JSON body with pydantic, in its default (lax) mode. A
  field validator returns \<open>None\<close> for a value pydantic refuses. In lax mode a \<^verbatim>\<open>float\<close>
  or \<^verbatim>\<open>int\<close> field also takes a boolean (as 0 or 1) and a string that parses as a
  number, an \<^verbatim>\<open>int\<close> field takes a number with no fractional part, and a \<^verbatim>\<open>str\<close> field
  takes strings only. Which strings pydantic parses as numbers is not fixed here: its
  two parsers are parameters of the validation.
\<close>

record str_parsers =
  str_as_float :: "string \<Rightarrow> real option"
  str_as_int :: "string \<Rightarrow> int option"

definition validate_float :: "str_parsers \<Rightarrow> json \<Rightarrow> real option" where
  "validate_float lx v =
     (case v of
        JNum r \<Rightarrow> Some r
      | JBool b \<Rightarrow> Some (if b then 1 else 0)
      | JStr s \<Rightarrow> str_as_float lx s
      | _ \<Rightarrow> None)"

definition validate_int :: "str_parsers \<Rightarrow> json \<Rightarrow> int option" where
  "validate_int lx v =
     (case v of
        JNum r \<Rightarrow> (if of_int \<lfloor>r\<rfloor> = r then Some \<lfloor>r\<rfloor> else None)
      | JBool b \<Rightarrow> Some (if b then 1 else 0)
      | JStr s \<Rightarrow> str_as_int lx s
      | _ \<Rightarrow> None)"

definition validate_str :: "json \<Rightarrow> string option" where
  "validate_str v = (case v of JStr s \<Rightarrow> Some s | _ \<Rightarrow> None)"

definition validate_dict :: "json \<Rightarrow> (string \<times> json) list option" where
  "validate_dict v = (case v of JObj kvs \<Rightarrow> Some kvs | _ \<Rightarrow> None)"

text \<open>\<^verbatim>\<open>Field(..., ge=0, le=100)\<close>: the bounds are checked on the converted value.\<close>

definition ge_le :: "'a::linorder \<Rightarrow> 'a \<Rightarrow> 'a option \<Rightarrow> 'a option" where
  "ge_le lo hi x = (case x of None \<Rightarrow> None | Some r \<Rightarrow> if lo \<le> r \<and> r \<le> hi then Some r else None)"

text \<open>\<^verbatim>\<open>min_length=1\<close> on \<^verbatim>\<open>device_id\<close>.\<close>

definition min_length :: "nat \<Rightarrow> string option \<Rightarrow> string option" where
  "min_length n x = (case x of None \<Rightarrow> None | Some s \<Rightarrow> if n \<le> length s then Some s else None)"

text \<open>
  A field of the body is absent (\<open>None\<close>), or present with a value (\<open>Some v\<close>, where
  \<open>v\<close> may be \<open>JNull\<close>). \<open>required\<close> is \<^verbatim>\<open>Field(...)\<close> on a type that is not
  \<^verbatim>\<open>Optional\<close>: absent and null are both errors. \<open>optional_default d\<close> is
  \<^verbatim>\<open>Optional[T] = d\<close>: an absent field takes the default \<open>d\<close>, a null is the value
  \<^verbatim>\<open>None\<close>, anything else goes to the validator of \<open>T\<close>. The outer \<open>option\<close> is the
  validation's verdict, the inner one the Python value.
\<close>

definition required :: "(json \<Rightarrow> 'a option) \<Rightarrow> json option \<Rightarrow> 'a option" where
  "required f raw = (case raw of None \<Rightarrow> None | Some v \<Rightarrow> f v)"

definition optional_default :: "'a option \<Rightarrow> (json \<Rightarrow> 'a option) \<Rightarrow> json option \<Rightarrow> 'a option option" where
  "optional_default d f raw =
     (case raw of
        None \<Rightarrow> Some d
      | Some JNull \<Rightarrow> Some None
      | Some v \<Rightarrow> map_option Some (f v))"

text \<open>
  The body must be a JSON object. Its keys are looked up by name; a key that is not a
  field of the model is ignored (pydantic's default). Every field is validated, and the
  body is refused if any of them is.
\<close>

definition validate_HealthPayload :: "str_parsers \<Rightarrow> json \<Rightarrow> HealthPayload option" where
  "validate_HealthPayload lx body =
     (case body of
        JObj kvs \<Rightarrow>
          Option.bind (required (\<lambda>v. min_length 1 (validate_str v)) (map_of kvs ''device_id'')) (\<lambda>f_device_id.
          Option.bind (optional_default None (\<lambda>v. ge_le 0 100 (validate_float lx v)) (map_of kvs ''cpu'')) (\<lambda>f_cpu.
          Option.bind (optional_default None (\<lambda>v. ge_le 0 100 (validate_float lx v)) (map_of kvs ''ram'')) (\<lambda>f_ram.
          Option.bind (optional_default None (validate_float lx) (map_of kvs ''temperature'')) (\<lambda>f_temperature.
          Option.bind (optional_default (Some ''OK'') validate_str (map_of kvs ''status'')) (\<lambda>f_status.
          Option.bind (optional_default None (\<lambda>v. ge_le 0 100 (validate_int lx v)) (map_of kvs ''health_score'')) (\<lambda>f_health_score.
          Option.bind (optional_default None validate_dict (map_of kvs ''extra'')) (\<lambda>f_extra.
          Some \<lparr>device_id = f_device_id, cpu = f_cpu, ram = f_ram, temperature = f_temperature,
                status = f_status, health_score = f_health_score, extra = f_extra\<rparr>)))))))
      | _ \<Rightarrow> None)"

subsection \<open>The endpoints\<close>

text \<open>
  \<^verbatim>\<open>
  @app.get("/")
  def root(_: None = Depends(require_key)):
      return {"status": "API is running"}
  \<close>
\<close>

definition root :: "store \<Rightarrow> response \<times> store" where
  "root LATEST = (Inr (JObj [(''status'', JStr ''API is running'')]), LATEST)"

text \<open>
  \<^verbatim>\<open>payload.model_dump(exclude_none=True)\<close>: the fields in declaration order, those whose
  value is \<^verbatim>\<open>None\<close> left out.
\<close>

fun dump_field :: "string \<Rightarrow> json option \<Rightarrow> (string \<times> json) list" where
  "dump_field k None = []"
| "dump_field k (Some v) = [(k, v)]"

definition model_dump_exclude_none :: "HealthPayload \<Rightarrow> (string \<times> json) list" where
  "model_dump_exclude_none payload =
     dump_field ''device_id'' (Some (JStr (device_id payload))) @
     dump_field ''cpu'' (map_option JNum (cpu payload)) @
     dump_field ''ram'' (map_option JNum (ram payload)) @
     dump_field ''temperature'' (map_option JNum (temperature payload)) @
     dump_field ''status'' (map_option JStr (status payload)) @
     dump_field ''health_score'' (map_option (\<lambda>i. JNum (of_int i)) (health_score payload)) @
     dump_field ''extra'' (map_option JObj (extra payload))"

text \<open>\<^verbatim>\<open>d.setdefault(k, v)\<close>: \<open>d\<close> unchanged when it has the key, else the pair appended.\<close>

definition setdefault :: "string \<Rightarrow> json \<Rightarrow> (string \<times> json) list \<Rightarrow> (string \<times> json) list" where
  "setdefault k v d = (case map_of d k of None \<Rightarrow> d @ [(k, v)] | Some u \<Rightarrow> d)"

text \<open>
  \<^verbatim>\<open>
  @app.post("/device/report")
  def report_health(payload: HealthPayload, _: None = Depends(require_key)):
      data = payload.model_dump(exclude_none=True)
      data.setdefault("status", "UNKNOWN")
      LATEST[payload.device_id] = {"data": data, "ts": time.time()}
      return {"ok": True, "stored_for": payload.device_id}
  \<close>
\<close>

definition stored_data :: "HealthPayload \<Rightarrow> (string \<times> json) list" where
  "stored_data payload = setdefault ''status'' (JStr ''UNKNOWN'') (model_dump_exclude_none payload)"

definition report_health :: "real \<Rightarrow> HealthPayload \<Rightarrow> store \<Rightarrow> response \<times> store" where
  "report_health now payload LATEST =
     (Inr (JObj [(''ok'', JBool True), (''stored_for'', JStr (device_id payload))]),
      AList.update (device_id payload) \<lparr>data = stored_data payload, ts = now\<rparr> LATEST)"

text \<open>
  Python's \<^verbatim>\<open>int(age)\<close> truncates towards zero, and the f-string prints the integer in
  decimal.
\<close>

definition py_int :: "real \<Rightarrow> int" where
  "py_int x = (if 0 \<le> x then \<lfloor>x\<rfloor> else \<lceil>x\<rceil>)"

definition digit :: "nat \<Rightarrow> char" where
  "digit d = ''0123456789'' ! d"

fun str_nat :: "nat \<Rightarrow> string" where
  "str_nat n = (if n < 10 then [digit n] else str_nat (n div 10) @ [digit (n mod 10)])"

declare str_nat.simps [simp del]

definition str_int :: "int \<Rightarrow> string" where
  "str_int i = (if i < 0 then CHR ''-'' # str_nat (nat (- i)) else str_nat (nat i))"

text \<open>
  \<^verbatim>\<open>
  @app.get("/device/health")
  def get_health(device_id: str, _: None = Depends(require_key)):
      item = LATEST.get(device_id)
      if not item:
          raise HTTPException(status_code=404, detail="No data yet for this device_id")
      age = time.time() - float(item["ts"])
      if age > STALE_SECONDS:
          raise HTTPException(status_code=503, detail=f"Device data is stale ({int(age)}s old)")
      return item["data"]
  \<close>
  An item of the store is a dictionary with the two keys \<^verbatim>\<open>data\<close> and \<^verbatim>\<open>ts\<close>, never
  empty, so \<^verbatim>\<open>not item\<close> holds exactly when \<^verbatim>\<open>LATEST.get\<close> returned \<^verbatim>\<open>None\<close>.
\<close>

definition get_health :: "config \<Rightarrow> real \<Rightarrow> string \<Rightarrow> store \<Rightarrow> response \<times> store" where
  "get_health cfg now dev_id LATEST =
     (case map_of LATEST dev_id of
        None \<Rightarrow> (Inl (HTTPException 404 ''No data yet for this device_id''), LATEST)
      | Some item \<Rightarrow>
          (let age = now - ts item in
           if age > real_of_int (STALE_SECONDS cfg)
           then (Inl (HTTPException 503 (''Device data is stale ('' @ str_int (py_int age) @ ''s old)'')), LATEST)
           else (Inr (JObj (data item)), LATEST)))"

text \<open>
  \<^verbatim>\<open>
  @app.get("/devices/health")
  def all_health(_: None = Depends(require_key)):
      return {k: v["data"] for k, v in LATEST.items()}
  \<close>
\<close>

definition all_health :: "store \<Rightarrow> response \<times> store" where
  "all_health LATEST = (Inr (JObj (map (\<lambda>(k, v). (k, JObj (data v))) LATEST)), LATEST)"

subsection \<open>The routes\<close>

text \<open>
  A request as FastAPI handles it: it resolves the dependency first, then validates the
  route's own parameters (the body, the query parameter), and calls the endpoint function
  only if no validation error was recorded; with any recorded it answers 422. A
  request is given by its \<^verbatim>\<open>x-api-key\<close> header, if it has one, and by its decoded JSON
  body or its \<^verbatim>\<open>device_id\<close> query parameter, if it has one. The body is one the JSON
  decoder has read: bytes that are not JSON never reach this point and are outside the
  model.
\<close>

definition GET_root :: "config \<Rightarrow> string option \<Rightarrow> store \<Rightarrow> response \<times> store" where
  "GET_root cfg header LATEST =
     (case depends_require_key cfg header of
        Raised e \<Rightarrow> (Inl e, LATEST)
      | ParamErrors \<Rightarrow> (Inl RequestValidationError, LATEST)
      | Solved u \<Rightarrow> root LATEST)"

definition POST_device_report ::
  "config \<Rightarrow> str_parsers \<Rightarrow> real \<Rightarrow> string option \<Rightarrow> json \<Rightarrow> store \<Rightarrow> response \<times> store" where
  "POST_device_report cfg lx now header body LATEST =
     (case depends_require_key cfg header of
        Raised e \<Rightarrow> (Inl e, LATEST)
      | ParamErrors \<Rightarrow> (Inl RequestValidationError, LATEST)
      | Solved u \<Rightarrow>
          (case validate_HealthPayload lx body of
             None \<Rightarrow> (Inl RequestValidationError, LATEST)
           | Some payload \<Rightarrow> report_health now payload LATEST))"

definition GET_device_health ::
  "config \<Rightarrow> real \<Rightarrow> string option \<Rightarrow> string option \<Rightarrow> store \<Rightarrow> response \<times> store" where
  "GET_device_health cfg now header query LATEST =
     (case depends_require_key cfg header of
        Raised e \<Rightarrow> (Inl e, LATEST)
      | ParamErrors \<Rightarrow> (Inl RequestValidationError, LATEST)
      | Solved u \<Rightarrow>
          (case query of
             None \<Rightarrow> (Inl RequestValidationError, LATEST)
           | Some dev_id \<Rightarrow> get_health cfg now dev_id LATEST))"

definition GET_devices_health :: "config \<Rightarrow> string option \<Rightarrow> store \<Rightarrow> response \<times> store" where
  "GET_devices_health cfg header LATEST =
     (case depends_require_key cfg header of
        Raised e \<Rightarrow> (Inl e, LATEST)
      | ParamErrors \<Rightarrow> (Inl RequestValidationError, LATEST)
      | Solved u \<Rightarrow> all_health LATEST)"


text \<open>The names of the fields \<^verbatim>\<open>HealthPayload\<close> declares, in order.\<close>

definition field_names :: "string list" where
  "field_names = [''device_id'', ''cpu'', ''ram'', ''temperature'', ''status'', ''health_score'', ''extra'']"

text \<open>The optional fields, and among them those of type \<^verbatim>\<open>float\<close> or \<^verbatim>\<open>int\<close>.\<close>

definition optional_fields :: "string list" where
  "optional_fields = [''cpu'', ''ram'', ''temperature'', ''health_score'', ''extra'']"


subsection \<open>A concrete pair of string parsers\<close>

text \<open>
  For the examples the two parsers are instantiated with one that reads plain strings of
  decimal digits, such as \<^verbatim>\<open>"50"\<close>, which pydantic converts to the number they spell,
  and refuses every other string.
\<close>

definition is_digit :: "char \<Rightarrow> bool" where
  "is_digit c = (c \<in> set ''0123456789'')"

definition digit_value :: "char \<Rightarrow> nat" where
  "digit_value c = of_char c - 48"

definition parse_digits :: "string \<Rightarrow> nat option" where
  "parse_digits s =
     (if s \<noteq> [] \<and> list_all is_digit s
      then Some (foldl (\<lambda>a c. 10 * a + digit_value c) 0 s) else None)"

definition digit_strings :: str_parsers where
  "digit_strings =
     \<lparr>str_as_float = (\<lambda>s. map_option real (parse_digits s)),
      str_as_int = (\<lambda>s. map_option int (parse_digits s))\<rparr>"

subsection \<open>Example requests and stores\<close>

text \<open>
  The first body is the example of the specification,
  \<^verbatim>\<open>{"device_id": "rpi-1", "cpu": 42.5, "ram": 60}\<close>.
\<close>

definition rpi1_body :: json where
  "rpi1_body = JObj [(''device_id'', JStr ''rpi-1''), (''cpu'', JNum 42.5), (''ram'', JNum 60)]"


definition two_entries :: store where
  "two_entries =
     [(''rpi-1'', \<lparr>data = [(''device_id'', JStr ''rpi-1''), (''status'', JStr ''OK'')], ts = 1000\<rparr>),
      (''rpi-2'', \<lparr>data = [(''device_id'', JStr ''rpi-2''), (''status'', JStr ''WARN'')], ts = 1900\<rparr>)]"

definition warn_body :: json where
  "warn_body = JObj [(''device_id'', JStr ''rpi-1''), (''status'', JStr ''WARN'')]"

definition null_body :: json where
  "null_body = JObj [(''device_id'', JStr ''rpi-1''), (''cpu'', JNull), (''status'', JNull)]"




section \<open>Basic facts\<close>

subsection \<open>The dependency and the routes behind it\<close>

lemma depends_require_key_None: "depends_require_key cfg None = ParamErrors"
  by (simp add: depends_require_key_def)

lemma depends_require_key_Some:
  "depends_require_key cfg (Some k) =
     (if k = MAKE_API_KEY cfg then Solved () else Raised (HTTPException 401 ''Invalid API key''))"
  by (simp add: depends_require_key_def require_key_def)

lemma POST_authorised:
  "POST_device_report cfg lx now (Some (MAKE_API_KEY cfg)) body s =
     (case validate_HealthPayload lx body of
        None \<Rightarrow> (Inl RequestValidationError, s)
      | Some payload \<Rightarrow> report_health now payload s)"
  by (simp add: POST_device_report_def depends_require_key_Some)

lemma POST_accepted_iff:
  "POST_device_report cfg lx now header body s = (Inr ack, s') \<longleftrightarrow>
     header = Some (MAKE_API_KEY cfg) \<and>
     (\<exists>p. validate_HealthPayload lx body = Some p \<and>
          ack = JObj [(''ok'', JBool True), (''stored_for'', JStr (device_id p))] \<and>
          s' = AList.update (device_id p) \<lparr>data = stored_data p, ts = now\<rparr> s)"
  by (cases header)
     (auto simp: POST_device_report_def depends_require_key_None depends_require_key_Some
        report_health_def split: option.splits)

lemma GET_device_health_authorised:
  "GET_device_health cfg now (Some (MAKE_API_KEY cfg)) (Some dev_id) s = get_health cfg now dev_id s"
  by (simp add: GET_device_health_def depends_require_key_Some)


subsection \<open>Validation field by field\<close>

lemma validate_fields:
  assumes "validate_HealthPayload lx (JObj kvs) = Some p"
  shows "required (\<lambda>v. min_length 1 (validate_str v)) (map_of kvs ''device_id'') = Some (device_id p)"
    and "optional_default None (\<lambda>v. ge_le 0 100 (validate_float lx v)) (map_of kvs ''cpu'') = Some (cpu p)"
    and "optional_default None (\<lambda>v. ge_le 0 100 (validate_float lx v)) (map_of kvs ''ram'') = Some (ram p)"
    and "optional_default None (validate_float lx) (map_of kvs ''temperature'') = Some (temperature p)"
    and "optional_default (Some ''OK'') validate_str (map_of kvs ''status'') = Some (status p)"
    and "optional_default None (\<lambda>v. ge_le 0 100 (validate_int lx v)) (map_of kvs ''health_score'') = Some (health_score p)"
    and "optional_default None validate_dict (map_of kvs ''extra'') = Some (extra p)"
  using assms by (auto simp: validate_HealthPayload_def bind_eq_Some_conv)


lemma optional_default_None_iff:
  "optional_default None f raw = Some x \<Longrightarrow> x = None \<longleftrightarrow> raw = None \<or> raw = Some JNull"
  by (auto simp: optional_default_def split: option.splits json.splits)

lemma device_id_field:
  "required (\<lambda>v. min_length 1 (validate_str v)) raw = Some d \<longleftrightarrow> raw = Some (JStr d) \<and> d \<noteq> []"
  by (auto simp: required_def min_length_def validate_str_def Suc_le_eq
        split: option.splits json.splits)


subsection \<open>The stored record\<close>

lemma map_of_model_dump:
  "map_of (model_dump_exclude_none p) k =
     (if k = ''device_id'' then Some (JStr (device_id p))
      else if k = ''cpu'' then map_option JNum (cpu p)
      else if k = ''ram'' then map_option JNum (ram p)
      else if k = ''temperature'' then map_option JNum (temperature p)
      else if k = ''status'' then map_option JStr (status p)
      else if k = ''health_score'' then map_option (\<lambda>i. JNum (of_int i)) (health_score p)
      else if k = ''extra'' then map_option JObj (extra p)
      else None)"
  by (cases "cpu p"; cases "ram p"; cases "temperature p"; cases "status p";
      cases "health_score p"; cases "extra p")
     (simp_all add: model_dump_exclude_none_def)

lemma map_of_setdefault:
  "map_of (setdefault k v d) k' =
     (if k' = k then Some (case map_of d k of None \<Rightarrow> v | Some u \<Rightarrow> u) else map_of d k')"
  by (cases "map_of d k") (auto simp: setdefault_def map_add_def split: option.splits)

lemma map_of_stored_data:
  "map_of (stored_data p) k =
     (if k = ''status'' then Some (case status p of None \<Rightarrow> JStr ''UNKNOWN'' | Some s \<Rightarrow> JStr s)
      else map_of (model_dump_exclude_none p) k)"
  by (cases "status p") (simp_all add: stored_data_def map_of_setdefault map_of_model_dump)

lemma keys_iff_map_of: "k \<in> fst ` set xs \<longleftrightarrow> map_of xs k \<noteq> None"
  by (simp add: map_of_eq_None_iff)

subsection \<open>What a valid body leaves in the stored record\<close>

lemma absent_or_null_iff: "(raw = None \<or> raw = Some JNull) \<longleftrightarrow> \<not> (\<exists>v. raw = Some v \<and> v \<noteq> JNull)"
  by (cases raw) auto

lemma validated_None_iff:
  assumes "validate_HealthPayload lx (JObj kvs) = Some p"
  shows "cpu p = None \<longleftrightarrow> map_of kvs ''cpu'' = None \<or> map_of kvs ''cpu'' = Some JNull"
    and "ram p = None \<longleftrightarrow> map_of kvs ''ram'' = None \<or> map_of kvs ''ram'' = Some JNull"
    and "temperature p = None \<longleftrightarrow> map_of kvs ''temperature'' = None \<or> map_of kvs ''temperature'' = Some JNull"
    and "health_score p = None \<longleftrightarrow> map_of kvs ''health_score'' = None \<or> map_of kvs ''health_score'' = Some JNull"
    and "extra p = None \<longleftrightarrow> map_of kvs ''extra'' = None \<or> map_of kvs ''extra'' = Some JNull"
    and "map_of kvs ''device_id'' = Some (JStr (device_id p))"
    and "device_id p \<noteq> []"
proof -
  note f = validate_fields [OF assms]
  show "cpu p = None \<longleftrightarrow> map_of kvs ''cpu'' = None \<or> map_of kvs ''cpu'' = Some JNull"
    by (rule optional_default_None_iff [OF f(2)])
  show "ram p = None \<longleftrightarrow> map_of kvs ''ram'' = None \<or> map_of kvs ''ram'' = Some JNull"
    by (rule optional_default_None_iff [OF f(3)])
  show "temperature p = None \<longleftrightarrow> map_of kvs ''temperature'' = None \<or> map_of kvs ''temperature'' = Some JNull"
    by (rule optional_default_None_iff [OF f(4)])
  show "health_score p = None \<longleftrightarrow> map_of kvs ''health_score'' = None \<or> map_of kvs ''health_score'' = Some JNull"
    by (rule optional_default_None_iff [OF f(6)])
  show "extra p = None \<longleftrightarrow> map_of kvs ''extra'' = None \<or> map_of kvs ''extra'' = Some JNull"
    by (rule optional_default_None_iff [OF f(7)])
  from f(1) show "map_of kvs ''device_id'' = Some (JStr (device_id p))" and "device_id p \<noteq> []"
    unfolding device_id_field by simp_all
qed

lemma stored_key_iff:
  assumes "validate_HealthPayload lx (JObj kvs) = Some p" and "k \<noteq> ''status''"
  shows "k \<in> fst ` set (stored_data p) \<longleftrightarrow>
           k \<in> set field_names \<and> (\<exists>v. map_of kvs k = Some v \<and> v \<noteq> JNull)"
proof -
  note n = validated_None_iff [OF assms(1)]
  note look = keys_iff_map_of map_of_stored_data map_of_model_dump field_names_def
  consider "k = ''device_id''" | "k = ''cpu''" | "k = ''ram''" | "k = ''temperature''"
    | "k = ''health_score''" | "k = ''extra''" | "k \<notin> set field_names"
    using assms(2) by (auto simp: field_names_def)
  then show ?thesis
  proof cases
    case 1
    then show ?thesis using n(6) by (simp add: look)
  next
    case 2
    then show ?thesis using n(1) by (simp add: look absent_or_null_iff)
  next
    case 3
    then show ?thesis using n(2) by (simp add: look absent_or_null_iff)
  next
    case 4
    then show ?thesis using n(3) by (simp add: look absent_or_null_iff)
  next
    case 5
    then show ?thesis using n(4) by (simp add: look absent_or_null_iff)
  next
    case 6
    then show ?thesis using n(5) by (simp add: look absent_or_null_iff)
  next
    case 7
    then show ?thesis by (simp add: look)
  qed
qed

lemma stored_status:
  assumes "validate_HealthPayload lx (JObj kvs) = Some p"
  shows "map_of (stored_data p) ''status'' =
           Some (case map_of kvs ''status'' of
                   None \<Rightarrow> JStr ''OK'' | Some JNull \<Rightarrow> JStr ''UNKNOWN'' | Some v \<Rightarrow> v)"
proof -
  have h: "Some (status p) = optional_default (Some ''OK'') validate_str (map_of kvs ''status'')"
    by (rule validate_fields(5) [OF assms, symmetric])
  show ?thesis
  proof (cases "map_of kvs ''status''")
    case None
    with h show ?thesis by (simp add: map_of_stored_data optional_default_def)
  next
    case (Some v)
    with h show ?thesis
      by (cases v) (auto simp: map_of_stored_data optional_default_def validate_str_def)
  qed
qed

lemma validated_status:
  assumes "validate_HealthPayload lx (JObj kvs) = Some p"
  shows "map_of kvs ''status'' = Some JNull \<Longrightarrow> status p = None"
    and "map_of kvs ''status'' = None \<Longrightarrow> status p = Some ''OK''"
proof -
  have h: "Some (status p) = optional_default (Some ''OK'') validate_str (map_of kvs ''status'')"
    by (rule validate_fields(5) [OF assms, symmetric])
  show "map_of kvs ''status'' = Some JNull \<Longrightarrow> status p = None"
    using h by (simp add: optional_default_def)
  show "map_of kvs ''status'' = None \<Longrightarrow> status p = Some ''OK''"
    using h by (simp add: optional_default_def)
qed







subsection \<open>What validation accepts and what it refuses\<close>










subsection \<open>An accepted request\<close>

lemma POST_accepted_store:
  assumes "POST_device_report cfg lx now header (JObj kvs) s = (Inr ack, s')"
  obtains p where "header = Some (MAKE_API_KEY cfg)"
    and "validate_HealthPayload lx (JObj kvs) = Some p"
    and "map_of kvs ''device_id'' = Some (JStr (device_id p))"
    and "s' = AList.update (device_id p) \<lparr>data = stored_data p, ts = now\<rparr> s"
    and "map_of s' (device_id p) = Some \<lparr>data = stored_data p, ts = now\<rparr>"
proof -
  from assms obtain p where h: "header = Some (MAKE_API_KEY cfg)"
    and v: "validate_HealthPayload lx (JObj kvs) = Some p"
    and s': "s' = AList.update (device_id p) \<lparr>data = stored_data p, ts = now\<rparr> s"
    unfolding POST_accepted_iff by blast
  from s' have "map_of s' (device_id p) = Some \<lparr>data = stored_data p, ts = now\<rparr>"
    by (simp add: update_conv')
  with h v s' validated_None_iff(6) [OF v] that show thesis
    by blast
qed

subsection \<open>Evaluating a request\<close>

text \<open>The definitions a concrete \<^verbatim>\<open>POST /device/report\<close> unfolds to.\<close>

lemmas eval_defs =
  POST_device_report_def depends_require_key_def require_key_def default_config_def
  validate_HealthPayload_def required_def optional_default_def min_length_def validate_str_def
  validate_float_def validate_int_def validate_dict_def ge_le_def report_health_def
  stored_data_def setdefault_def model_dump_exclude_none_def
  digit_strings_def parse_digits_def is_digit_def digit_value_def

subsection \<open>Truncation and decimal printing\<close>

text \<open>\<open>py_int\<close> is the integer next to \<open>x\<close> on the side of zero.\<close>

lemma py_int_truncates:
  "\<bar>real_of_int (py_int x)\<bar> \<le> \<bar>x\<bar> \<and> \<bar>x - real_of_int (py_int x)\<bar> < 1"
  unfolding py_int_def by (cases "0 \<le> x") (simp_all, linarith+)

text \<open>\<open>str_nat\<close> prints the decimal digits of \<open>n\<close>: reading them back gives \<open>n\<close>.\<close>

lemma digit_is_digit:
  assumes "d < 10"
  shows "is_digit (digit d)" and "digit_value (digit d) = d"
proof -
  from assms consider "d = 0" | "d = 1" | "d = 2" | "d = 3" | "d = 4" | "d = 5" | "d = 6"
    | "d = 7" | "d = 8" | "d = 9"
    by atomize_elim arith
  then have "is_digit (digit d) \<and> digit_value (digit d) = d"
    by cases (simp_all add: digit_def is_digit_def digit_value_def)
  then show "is_digit (digit d)" and "digit_value (digit d) = d"
    by simp_all
qed

lemma str_nat_digits:
  "str_nat n \<noteq> [] \<and> list_all is_digit (str_nat n) \<and>
   foldl (\<lambda>a c. 10 * a + digit_value c) 0 (str_nat n) = n"
proof (induction n rule: str_nat.induct)
  case (1 n)
  show ?case
  proof (cases "n < 10")
    case True
    then show ?thesis
      by (simp add: str_nat.simps [of n] digit_is_digit)
  next
    case False
    have "n mod 10 < 10"
      by simp
    with False 1 show ?thesis
      by (simp add: str_nat.simps [of n] digit_is_digit)
  qed
qed

lemma parse_digits_str_nat: "parse_digits (str_nat n) = Some n"
  using str_nat_digits [of n] by (simp add: parse_digits_def)

section \<open>The claims\<close>

subsection \<open>Reading one device\<close>

text \<open>
  Claim C7. For every store and every device id that has no entry in it, an authenticated
  \<^verbatim>\<open>GET /device/health\<close> for that id fails with status 404 and the detail
  \<^verbatim>\<open>No data yet for this device_id\<close>, whatever entries the store holds for other ids.
\<close>

theorem get_health_unknown_device_404:
  "dev_id \<notin> fst ` set LATEST \<Longrightarrow>
     GET_device_health cfg now (Some (MAKE_API_KEY cfg)) (Some dev_id) LATEST =
       (Inl (HTTPException 404 ''No data yet for this device_id''), LATEST)"
proof -
  assume "dev_id \<notin> fst ` set LATEST"
  then have "map_of LATEST dev_id = None"
    by (simp add: map_of_eq_None_iff)
  then show ?thesis
    by (simp add: GET_device_health_authorised get_health_def)
qed

theorem get_health_unknown_device_404_witness:
  "''rpi-3'' \<notin> fst ` set two_entries \<and>
   GET_device_health default_config 1001 (Some ''make_network_health'') (Some ''rpi-3'') two_entries =
     (Inl (HTTPException 404 ''No data yet for this device_id''), two_entries)"
  using get_health_unknown_device_404 [where dev_id = "''rpi-3''" and cfg = default_config
      and now = 1001 and LATEST = two_entries]
  by (simp add: default_config_def two_entries_def)



subsection \<open>Reading all devices\<close>



subsection \<open>Reads and the store\<close>

text \<open>
  Claim C10. The three read routes \<^verbatim>\<open>GET /\<close>, \<^verbatim>\<open>GET /device/health\<close> and
  \<^verbatim>\<open>GET /devices/health\<close> leave the store exactly as it was, entries and timestamps,
  whatever the header, the query and the outcome (200, 401, 404, 422 or 503).
\<close>

theorem reads_leave_store_unchanged:
  "snd (GET_root cfg header LATEST) = LATEST \<and>
   snd (GET_device_health cfg now header query LATEST) = LATEST \<and>
   snd (GET_devices_health cfg header LATEST) = LATEST"
  by (simp add: GET_root_def GET_device_health_def GET_devices_health_def root_def get_health_def
        all_health_def Let_def split: solved.splits option.splits)

subsection \<open>Authentication\<close>




subsection \<open>Reporting twice\<close>

text \<open>
  Claim C4. For two successful \<^verbatim>\<open>POST /device/report\<close> in a row with the same
  \<^verbatim>\<open>device_id\<close>, the store afterwards holds for that id the record built from the second
  body alone, with the second timestamp: it is the very store the second request by itself
  would have produced, so nothing of the first body is left; every key of the record is
  \<^verbatim>\<open>status\<close> or a key of the second body; the other ids are untouched; and the ids of
  the store stay distinct, one entry each.
\<close>

theorem report_twice_keeps_second_only:
  assumes first: "POST_device_report cfg lx t1 header1 (JObj kvs1) LATEST = (Inr ack1, LATEST1)"
      and second: "POST_device_report cfg lx t2 header2 (JObj kvs2) LATEST1 = (Inr ack2, LATEST2)"
      and same: "map_of kvs1 ''device_id'' = map_of kvs2 ''device_id''"
      and inv: "distinct (map fst LATEST)"
  shows "\<exists>d p2. map_of kvs2 ''device_id'' = Some (JStr d) \<and>
           validate_HealthPayload lx (JObj kvs2) = Some p2 \<and>
           map_of LATEST2 d = Some \<lparr>data = stored_data p2, ts = t2\<rparr> \<and>
           LATEST2 = snd (POST_device_report cfg lx t2 header2 (JObj kvs2) LATEST) \<and>
           (\<forall>k. k \<in> fst ` set (stored_data p2) \<longrightarrow> k = ''status'' \<or> k \<in> fst ` set kvs2) \<and>
           (\<forall>k. k \<noteq> d \<longrightarrow> map_of LATEST2 k = map_of LATEST k) \<and>
           distinct (map fst LATEST2)"
proof -
  from first obtain p1 where
    s1: "LATEST1 = AList.update (device_id p1) \<lparr>data = stored_data p1, ts = t1\<rparr> LATEST"
    and d1: "map_of kvs1 ''device_id'' = Some (JStr (device_id p1))"
    by (rule POST_accepted_store)
  from second obtain p2 where h2: "header2 = Some (MAKE_API_KEY cfg)"
    and v2: "validate_HealthPayload lx (JObj kvs2) = Some p2"
    and d2: "map_of kvs2 ''device_id'' = Some (JStr (device_id p2))"
    and s2: "LATEST2 = AList.update (device_id p2) \<lparr>data = stored_data p2, ts = t2\<rparr> LATEST1"
    and e2: "map_of LATEST2 (device_id p2) = Some \<lparr>data = stored_data p2, ts = t2\<rparr>"
    by (rule POST_accepted_store)
  from d1 d2 same have eq: "device_id p1 = device_id p2"
    by simp
  have alone: "LATEST2 = AList.update (device_id p2) \<lparr>data = stored_data p2, ts = t2\<rparr> LATEST"
    by (simp add: s2 s1 eq)
  have only: "LATEST2 = snd (POST_device_report cfg lx t2 header2 (JObj kvs2) LATEST)"
    by (simp add: alone h2 POST_authorised v2 report_health_def)
  have keys: "k = ''status'' \<or> k \<in> fst ` set kvs2" if "k \<in> fst ` set (stored_data p2)" for k
  proof (cases "k = ''status''")
    case False
    with that stored_key_iff [OF v2] obtain v where "map_of kvs2 k = Some v"
      by blast
    then have "k \<in> fst ` set kvs2"
      by (simp add: keys_iff_map_of)
    then show ?thesis ..
  qed simp
  have others: "map_of LATEST2 k = map_of LATEST k" if "k \<noteq> device_id p2" for k
    using that by (simp add: alone update_conv')
  have "distinct (map fst LATEST2)"
    using inv by (simp add: alone distinct_update)
  with d2 v2 e2 only keys others show ?thesis
    by blast
qed

theorem report_twice_keeps_second_only_witness:
  "snd (POST_device_report default_config digit_strings 2000 (Some ''make_network_health'') warn_body
      (snd (POST_device_report default_config digit_strings 1000 (Some ''make_network_health'') rpi1_body []))) =
   snd (POST_device_report default_config digit_strings 2000 (Some ''make_network_health'') warn_body []) \<and>
   snd (POST_device_report default_config digit_strings 2000 (Some ''make_network_health'') warn_body []) =
     [(''rpi-1'', \<lparr>data = [(''device_id'', JStr ''rpi-1''), (''status'', JStr ''WARN'')], ts = 2000\<rparr>)]"
proof -
  let ?s1 = "[(''rpi-1'', \<lparr>data = [(''device_id'', JStr ''rpi-1''), (''cpu'', JNum 42.5),
                (''ram'', JNum 60), (''status'', JStr ''OK'')], ts = 1000\<rparr>)]"
  let ?s2 = "[(''rpi-1'', \<lparr>data = [(''device_id'', JStr ''rpi-1''), (''status'', JStr ''WARN'')], ts = 2000\<rparr>)]"
  let ?ack = "JObj [(''ok'', JBool True), (''stored_for'', JStr ''rpi-1'')]"
  have first: "POST_device_report default_config digit_strings 1000 (Some ''make_network_health'')
      (JObj [(''device_id'', JStr ''rpi-1''), (''cpu'', JNum 42.5), (''ram'', JNum 60)]) [] = (Inr ?ack, ?s1)"
    by (simp add: eval_defs)
  have second: "POST_device_report default_config digit_strings 2000 (Some ''make_network_health'')
      (JObj [(''device_id'', JStr ''rpi-1''), (''status'', JStr ''WARN'')]) ?s1 = (Inr ?ack, ?s2)"
    by (simp add: eval_defs)
  have same: "map_of [(''device_id'', JStr ''rpi-1''), (''cpu'', JNum 42.5), (''ram'', JNum 60)] ''device_id'' =
      map_of [(''device_id'', JStr ''rpi-1''), (''status'', JStr ''WARN'')] ''device_id''"
    by simp
  have inv: "distinct (map fst ([] :: store))"
    by simp
  from report_twice_keeps_second_only [OF first second same inv]
  have "?s2 = snd (POST_device_report default_config digit_strings 2000 (Some ''make_network_health'')
      (JObj [(''device_id'', JStr ''rpi-1''), (''status'', JStr ''WARN'')]) [])"
    by blast
  with first second show ?thesis
    by (simp add: rpi1_body_def warn_body_def)
qed

subsection \<open>Null and absent fields\<close>

text \<open>
  Claim C9. For every accepted body whose \<^verbatim>\<open>status\<close> is an explicit null, the stored
  record has \<^verbatim>\<open>status = "UNKNOWN"\<close>: the null is dropped by
  \<^verbatim>\<open>model_dump(exclude_none=True)\<close> and \<^verbatim>\<open>setdefault\<close> fills the key in. An absent
  \<^verbatim>\<open>status\<close> goes the other way: the schema default \<^verbatim>\<open>"OK"\<close> is already in the dump,
  and is what is stored. In each of the other optional fields (\<^verbatim>\<open>cpu\<close>, \<^verbatim>\<open>ram\<close>,
  \<^verbatim>\<open>temperature\<close>, \<^verbatim>\<open>health_score\<close>, \<^verbatim>\<open>extra\<close>) a null is stripped exactly like an
  absent field: the key is not in the record, and the request with that key deleted
  has the same answer and the same effect.
\<close>

theorem null_status_stored_as_unknown:
  assumes "POST_device_report cfg lx now header (JObj kvs) LATEST = (Inr ack, LATEST')"
  shows "\<exists>d p. map_of kvs ''device_id'' = Some (JStr d) \<and>
           validate_HealthPayload lx (JObj kvs) = Some p \<and>
           map_of LATEST' d = Some \<lparr>data = stored_data p, ts = now\<rparr> \<and>
           (map_of kvs ''status'' = Some JNull \<longrightarrow>
              ''status'' \<notin> fst ` set (model_dump_exclude_none p) \<and>
              map_of (stored_data p) ''status'' = Some (JStr ''UNKNOWN'')) \<and>
           (map_of kvs ''status'' = None \<longrightarrow>
              map_of (model_dump_exclude_none p) ''status'' = Some (JStr ''OK'') \<and>
              map_of (stored_data p) ''status'' = Some (JStr ''OK'')) \<and>
           (\<forall>k \<in> set optional_fields. map_of kvs k = Some JNull \<or> map_of kvs k = None \<longrightarrow>
              k \<notin> fst ` set (stored_data p)) \<and>
           (\<forall>k \<in> set optional_fields. map_of kvs k = Some JNull \<longrightarrow>
              POST_device_report cfg lx now header (JObj (AList.delete k kvs)) LATEST = (Inr ack, LATEST'))"
proof -
  from assms obtain p where h: "header = Some (MAKE_API_KEY cfg)"
    and v: "validate_HealthPayload lx (JObj kvs) = Some p"
    and d: "map_of kvs ''device_id'' = Some (JStr (device_id p))"
    and e: "map_of LATEST' (device_id p) = Some \<lparr>data = stored_data p, ts = now\<rparr>"
    by (rule POST_accepted_store)
  have null: "map_of kvs ''status'' = Some JNull \<longrightarrow>
      ''status'' \<notin> fst ` set (model_dump_exclude_none p) \<and>
      map_of (stored_data p) ''status'' = Some (JStr ''UNKNOWN'')"
    using stored_status [OF v] validated_status(1) [OF v]
    by (simp add: keys_iff_map_of map_of_model_dump)
  have absent: "map_of kvs ''status'' = None \<longrightarrow>
      map_of (model_dump_exclude_none p) ''status'' = Some (JStr ''OK'') \<and>
      map_of (stored_data p) ''status'' = Some (JStr ''OK'')"
    using stored_status [OF v] validated_status(2) [OF v]
    by (simp add: map_of_model_dump)
  have stripped: "\<forall>k \<in> set optional_fields. map_of kvs k = Some JNull \<or> map_of kvs k = None \<longrightarrow>
      k \<notin> fst ` set (stored_data p)"
  proof (intro ballI impI)
    fix k
    assume k: "k \<in> set optional_fields" and raw: "map_of kvs k = Some JNull \<or> map_of kvs k = None"
    from k have "k \<noteq> ''status''"
      by (auto simp: optional_fields_def)
    from stored_key_iff [OF v this] raw show "k \<notin> fst ` set (stored_data p)"
      by auto
  qed
  have same: "validate_HealthPayload lx (JObj (AList.delete k kvs)) = validate_HealthPayload lx (JObj kvs)"
    if "k \<in> set optional_fields" "map_of kvs k = Some JNull" for k
  proof -
    from that(1) consider "k = ''cpu''" | "k = ''ram''" | "k = ''temperature''"
      | "k = ''health_score''" | "k = ''extra''"
      by (auto simp: optional_fields_def)
    then show ?thesis
      using that(2)
      by cases (simp_all add: validate_HealthPayload_def delete_conv' optional_default_def)
  qed
  have again: "\<forall>k \<in> set optional_fields. map_of kvs k = Some JNull \<longrightarrow>
      POST_device_report cfg lx now header (JObj (AList.delete k kvs)) LATEST = (Inr ack, LATEST')"
  proof (intro ballI impI)
    fix k
    assume "k \<in> set optional_fields" "map_of kvs k = Some JNull"
    then have "POST_device_report cfg lx now header (JObj (AList.delete k kvs)) LATEST =
        POST_device_report cfg lx now header (JObj kvs) LATEST"
      by (simp only: POST_device_report_def same)
    with assms show "POST_device_report cfg lx now header (JObj (AList.delete k kvs)) LATEST =
        (Inr ack, LATEST')"
      by simp
  qed
  from d v e null absent stripped again show ?thesis
    by (intro exI [of _ "device_id p"] exI [of _ p] conjI)
qed

theorem null_status_stored_as_unknown_witness:
  "(\<exists>d p. map_of [(''device_id'', JStr ''rpi-1''), (''cpu'', JNull), (''status'', JNull)] ''device_id'' = Some (JStr d) \<and>
      validate_HealthPayload digit_strings null_body = Some p \<and>
      map_of (snd (POST_device_report default_config digit_strings 1000 (Some ''make_network_health'')
        null_body [])) d = Some \<lparr>data = stored_data p, ts = 1000\<rparr> \<and>
      ''status'' \<notin> fst ` set (model_dump_exclude_none p) \<and>
      map_of (stored_data p) ''status'' = Some (JStr ''UNKNOWN'') \<and>
      ''cpu'' \<notin> fst ` set (stored_data p) \<and>
      POST_device_report default_config digit_strings 1000 (Some ''make_network_health'')
        (JObj (AList.delete ''cpu'' [(''device_id'', JStr ''rpi-1''), (''cpu'', JNull), (''status'', JNull)])) [] =
      POST_device_report default_config digit_strings 1000 (Some ''make_network_health'') null_body []) \<and>
   (\<exists>d p. map_of [(''device_id'', JStr ''rpi-1''), (''cpu'', JNum 42.5), (''ram'', JNum 60)] ''device_id'' = Some (JStr d) \<and>
      validate_HealthPayload digit_strings rpi1_body = Some p \<and>
      map_of (snd (POST_device_report default_config digit_strings 1000 (Some ''make_network_health'')
        rpi1_body [])) d = Some \<lparr>data = stored_data p, ts = 1000\<rparr> \<and>
      map_of (model_dump_exclude_none p) ''status'' = Some (JStr ''OK'') \<and>
      map_of (stored_data p) ''status'' = Some (JStr ''OK''))"
proof -
  let ?ack = "JObj [(''ok'', JBool True), (''stored_for'', JStr ''rpi-1'')]"
  let ?kvs = "[(''device_id'', JStr ''rpi-1''), (''cpu'', JNull), (''status'', JNull)]"
  let ?s = "[(''rpi-1'', \<lparr>data = [(''device_id'', JStr ''rpi-1''), (''status'', JStr ''UNKNOWN'')], ts = 1000\<rparr>)]"
  let ?kvs' = "[(''device_id'', JStr ''rpi-1''), (''cpu'', JNum 42.5), (''ram'', JNum 60)]"
  let ?s' = "[(''rpi-1'', \<lparr>data = [(''device_id'', JStr ''rpi-1''), (''cpu'', JNum 42.5),
                (''ram'', JNum 60), (''status'', JStr ''OK'')], ts = 1000\<rparr>)]"
  have post: "POST_device_report default_config digit_strings 1000 (Some ''make_network_health'')
      (JObj ?kvs) [] = (Inr ?ack, ?s)"
    by (simp add: eval_defs)
  have post': "POST_device_report default_config digit_strings 1000 (Some ''make_network_health'')
      (JObj ?kvs') [] = (Inr ?ack, ?s')"
    by (simp add: eval_defs)
  have null: "map_of ?kvs ''status'' = Some JNull" "map_of ?kvs ''cpu'' = Some JNull"
      "''cpu'' \<in> set optional_fields"
    by (simp_all add: optional_fields_def)
  have absent: "map_of ?kvs' ''status'' = None"
    by simp
  from null_status_stored_as_unknown [OF post] null
  have "\<exists>d p. map_of ?kvs ''device_id'' = Some (JStr d) \<and>
      validate_HealthPayload digit_strings (JObj ?kvs) = Some p \<and>
      map_of ?s d = Some \<lparr>data = stored_data p, ts = 1000\<rparr> \<and>
      ''status'' \<notin> fst ` set (model_dump_exclude_none p) \<and>
      map_of (stored_data p) ''status'' = Some (JStr ''UNKNOWN'') \<and>
      ''cpu'' \<notin> fst ` set (stored_data p) \<and>
      POST_device_report default_config digit_strings 1000 (Some ''make_network_health'')
        (JObj (AList.delete ''cpu'' ?kvs)) [] = (Inr ?ack, ?s)"
    by fast
  moreover from null_status_stored_as_unknown [OF post'] absent
  have "\<exists>d p. map_of ?kvs' ''device_id'' = Some (JStr d) \<and>
      validate_HealthPayload digit_strings (JObj ?kvs') = Some p \<and>
      map_of ?s' d = Some \<lparr>data = stored_data p, ts = 1000\<rparr> \<and>
      map_of (model_dump_exclude_none p) ''status'' = Some (JStr ''OK'') \<and>
      map_of (stored_data p) ''status'' = Some (JStr ''OK'')"
    by fast
  ultimately show ?thesis
    unfolding null_body_def rpi1_body_def post post' snd_conv by (intro conjI)
qed

subsection \<open>What is stored, and what comes back\<close>







subsection \<open>Validation of the body\<close>




end
